theory Spec2Isabelle
  imports Complex_Main "HOL-Library.Char_ord" "HOL-Library.List_Lexorder" "HOL-Library.Multiset"
begin

section \<open>JavaScript values used by the application\<close>

text \<open>
  \<open>String(n)\<close> of a non-negative integer is its decimal numeral; \<open>padStart\<close> with a
  one-character filler prepends the filler until the target length is reached.
\<close>

definition digit_char :: "nat \<Rightarrow> char" where
  "digit_char d = ''0123456789'' ! d"

fun String_nat :: "nat \<Rightarrow> string" where
  "String_nat n =
     (if n < 10 then [digit_char n] else String_nat (n div 10) @ [digit_char (n mod 10)])"

declare String_nat.simps [simp del]

definition padStart :: "nat \<Rightarrow> char \<Rightarrow> string \<Rightarrow> string" where
  "padStart n c s = replicate (n - length s) c @ s"

text \<open>
  \<open>Array.prototype.sort\<close> with a comparator: the sort is stable, and an element \<open>a\<close> stays
  in front of \<open>b\<close> when the comparator's result on \<open>(a, b)\<close> is not positive.  The
  language fixes the result only for a consistent comparator.
\<close>

fun insert_cmp :: "('a \<Rightarrow> 'a \<Rightarrow> int) \<Rightarrow> 'a \<Rightarrow> 'a list \<Rightarrow> 'a list" where
  "insert_cmp cmp x [] = [x]"
| "insert_cmp cmp x (y # ys) =
     (if cmp x y \<le> 0 then x # y # ys else y # insert_cmp cmp x ys)"

definition array_sort :: "('a \<Rightarrow> 'a \<Rightarrow> int) \<Rightarrow> 'a list \<Rightarrow> 'a list" where
  "array_sort cmp xs = foldr (insert_cmp cmp) xs []"

definition consistent_comparator :: "('a \<Rightarrow> 'a \<Rightarrow> int) \<Rightarrow> bool" where
  "consistent_comparator cmp \<longleftrightarrow>
     (\<forall>a b. cmp a b \<le> 0 \<or> cmp b a \<le> 0) \<and>
     (\<forall>a b c. cmp a b \<le> 0 \<and> cmp b c \<le> 0 \<longrightarrow> cmp a c \<le> 0)"

text \<open>The same two conditions, required of the elements of a set only.\<close>

definition consistent_on :: "'a set \<Rightarrow> ('a \<Rightarrow> 'a \<Rightarrow> int) \<Rightarrow> bool" where
  "consistent_on A cmp \<longleftrightarrow>
     (\<forall>a\<in>A. \<forall>b\<in>A. cmp a b \<le> 0 \<or> cmp b a \<le> 0) \<and>
     (\<forall>a\<in>A. \<forall>b\<in>A. \<forall>c\<in>A. cmp a b \<le> 0 \<and> cmp b c \<le> 0 \<longrightarrow> cmp a c \<le> 0)"

text \<open>
  \<open>String.prototype.localeCompare\<close> belongs to the host, not to the repository; the
  functions below take it as the parameter \<open>lc\<close>.  \<open>codeUnitCompare\<close> is the comparison
  by code units, with which every locale agrees on zero-padded \<open>HH:MM\<close> strings.
\<close>

definition codeUnitCompare :: "string \<Rightarrow> string \<Rightarrow> int" where
  "codeUnitCompare a b = (if a < b then - 1 else if a = b then 0 else 1)"

section \<open>services/db: the record store\<close>

text \<open>
  An object store holds at most one record per key; \<open>put\<close> inserts or replaces, \<open>add\<close>
  refuses a key that is present, \<open>getAll\<close> returns the records in ascending key order.
  The outcome of a request is decided by the browser and is a parameter of every operation.
\<close>

type_synonym 'r object_store = "(string \<times> 'r) list"

definition store_put :: "string \<Rightarrow> 'r \<Rightarrow> 'r object_store \<Rightarrow> 'r object_store" where
  "store_put k r st = (k, r) # filter (\<lambda>e. fst e \<noteq> k) st"


definition store_add :: "string \<Rightarrow> 'r \<Rightarrow> 'r object_store \<Rightarrow> 'r object_store option" where
  "store_add k r st = (if k \<in> set (map fst st) then None else Some ((k, r) # st))"

definition store_getAll :: "'r object_store \<Rightarrow> 'r list" where
  "store_getAll st = map snd (sort_key fst st)"

datatype db_outcome = DbOk | OpenFails | RequestFails

text \<open>
  The records of \<open>types.ts\<close>.  The fields \<open>time\<close>, \<open>type\<close> and \<open>duration\<close> of an event are
  \<open>eventTime\<close>, \<open>eventType\<close> and \<open>eventDuration\<close> here, and the \<open>id\<close> of an alarm is
  \<open>alarmId\<close>.  Numbers are exact.
\<close>

record alarm =
  alarmId :: string
  time :: string
  label :: string
  isActive :: bool
  days :: "nat list"

datatype event_type = Snore | Talk | Cough | Fart | Movement | Other

datatype stage_name = Awake | Light | Deep | REM

record sleep_event =
  eventTime :: rat
  eventType :: event_type
  description :: string
  eventDuration :: rat

record sleep_stage =
  stage :: stage_name
  startTime :: rat
  endTime :: rat

record analysis_result =
  sleepScore :: rat
  summary :: string
  events :: "sleep_event list"
  stages :: "sleep_stage list"
  duration :: rat

record analysis_data = analysis_result +
  date :: string

definition getAllAlarms ::
  "(string \<Rightarrow> string \<Rightarrow> int) \<Rightarrow> db_outcome \<Rightarrow> alarm object_store \<Rightarrow> string + alarm list" where
  "getAllAlarms lc out st =
     (case out of
        OpenFails \<Rightarrow> Inl ''Error opening database''
      | RequestFails \<Rightarrow> Inl ''Error fetching alarms''
      | DbOk \<Rightarrow> Inr (array_sort (\<lambda>a b. lc (time a) (time b)) (store_getAll st)))"

definition saveAlarm ::
  "db_outcome \<Rightarrow> alarm \<Rightarrow> alarm object_store \<Rightarrow> string + alarm object_store" where
  "saveAlarm out a st =
     (case out of
        OpenFails \<Rightarrow> Inl ''Error opening database''
      | RequestFails \<Rightarrow> Inl ''Error saving alarm''
      | DbOk \<Rightarrow> Inr (store_put (alarmId a) a st))"


text \<open>
  \<open>new Date(s).getTime()\<close> is the host's: \<open>getTime\<close> is a parameter, \<open>None\<close> standing for
  \<open>NaN\<close> (an invalid date).  A comparator result of \<open>NaN\<close> counts as \<open>0\<close> in the sort.
\<close>

definition dateCompare :: "(string \<Rightarrow> int option) \<Rightarrow> analysis_data \<Rightarrow> analysis_data \<Rightarrow> int" where
  "dateCompare getTime a b =
     (case (getTime (date b), getTime (date a)) of
        (Some tb, Some ta) \<Rightarrow> tb - ta
      | _ \<Rightarrow> 0)"

text \<open>
  A session whose date the host can read, and the order \<open>a\<close> not earlier than \<open>b\<close> on
  such sessions.
\<close>

definition validDate :: "(string \<Rightarrow> int option) \<Rightarrow> analysis_data \<Rightarrow> bool" where
  "validDate getTime r \<longleftrightarrow> getTime (date r) \<noteq> None"

definition notEarlier :: "(string \<Rightarrow> int option) \<Rightarrow> analysis_data \<Rightarrow> analysis_data \<Rightarrow> bool" where
  "notEarlier getTime a b \<longleftrightarrow>
     (case (getTime (date a), getTime (date b)) of
        (Some ta, Some tb) \<Rightarrow> tb \<le> ta
      | _ \<Rightarrow> False)"

definition getSleepHistory ::
  "(string \<Rightarrow> int option) \<Rightarrow> db_outcome \<Rightarrow> analysis_data object_store
     \<Rightarrow> string + analysis_data list" where
  "getSleepHistory getTime out st =
     (case out of
        OpenFails \<Rightarrow> Inl ''Error opening database''
      | RequestFails \<Rightarrow> Inl ''Error fetching sleep history''
      | DbOk \<Rightarrow> Inr (array_sort (dateCompare getTime) (store_getAll st)))"

definition addSleepSession ::
  "db_outcome \<Rightarrow> analysis_data \<Rightarrow> analysis_data object_store
     \<Rightarrow> string + analysis_data object_store" where
  "addSleepSession out sessionData st =
     (case out of
        OpenFails \<Rightarrow> Inl ''Error opening database''
      | RequestFails \<Rightarrow> Inl ''Error adding sleep session''
      | DbOk \<Rightarrow>
          (case store_add (date sessionData) sessionData st of
             None \<Rightarrow> Inl ''Error adding sleep session''
           | Some st' \<Rightarrow> Inr st'))"

section \<open>components/AlarmClock: the alarm evaluation loop\<close>

text \<open>
  The component state, together with the two things its callbacks act on: the \<open>alarms\<close>
  object store and the pending \<open>setTimeout\<close> callbacks (due time in milliseconds and the
  alarm id the callback captured).
\<close>

record alarm_state =
  alarms :: "alarm list"
  ringingAlarm :: "alarm option"
  ignoreForThisMinute :: "string list"
  alarmStore :: "alarm object_store"
  timeouts :: "(nat \<times> string) list"

text \<open>The three readings \<open>checkAlarms\<close> takes from \<open>new Date()\<close>.\<close>

record clock =
  getHours :: nat
  getMinutes :: nat
  getDay :: nat

definition currentTime :: "clock \<Rightarrow> string" where
  "currentTime now =
     padStart 2 (CHR ''0'') (String_nat (getHours now)) @ '':'' @
     padStart 2 (CHR ''0'') (String_nat (getMinutes now))"

text \<open>The condition of the \<open>if\<close> inside the loop of \<open>checkAlarms\<close>.\<close>

definition shouldRing :: "clock \<Rightarrow> string list \<Rightarrow> alarm \<Rightarrow> bool" where
  "shouldRing now ign a \<longleftrightarrow>
     isActive a \<and> time a = currentTime now \<and> alarmId a \<notin> set ign \<and>
     (days a = [] \<or> getDay now \<in> set (days a))"

text \<open>The \<open>for\<close> loop with its \<open>break\<close>: the alarm the loop stops at, if any.\<close>

fun scanAlarms :: "clock \<Rightarrow> string list \<Rightarrow> alarm list \<Rightarrow> alarm option" where
  "scanAlarms now ign [] = None"
| "scanAlarms now ign (a # rest) =
     (if shouldRing now ign a then Some a else scanAlarms now ign rest)"

definition checkAlarms :: "db_outcome \<Rightarrow> clock \<Rightarrow> alarm_state \<Rightarrow> alarm_state" where
  "checkAlarms out now s =
     (case ringingAlarm s of
        Some r \<Rightarrow> s
      | None \<Rightarrow>
          (case scanAlarms now (ignoreForThisMinute s) (alarms s) of
             None \<Rightarrow> s
           | Some a \<Rightarrow>
               (let s1 = s\<lparr>ringingAlarm := Some a\<rparr> in
                if days a = [] then
                  (let updatedAlarm = a\<lparr>isActive := False\<rparr> in
                   case saveAlarm out updatedAlarm (alarmStore s1) of
                     Inr st \<Rightarrow>
                       s1\<lparr>alarmStore := st,
                          alarms := map (\<lambda>x. if alarmId x = alarmId a then updatedAlarm else x)
                                      (alarms s1)\<rparr>
                   | Inl e \<Rightarrow> s1)
                else s1)))"

text \<open>
  \<open>addAlarm\<close> at clock reading \<open>now\<close> (\<open>Date.now()\<close>, milliseconds); the argument's id is
  overwritten, as the spread \<open>{ ...alarm, id }\<close> does.
\<close>

definition addAlarm ::
  "(string \<Rightarrow> string \<Rightarrow> int) \<Rightarrow> db_outcome \<Rightarrow> nat \<Rightarrow> alarm \<Rightarrow> alarm_state \<Rightarrow> alarm_state" where
  "addAlarm lc out now a s =
     (let newAlarm = a\<lparr>alarmId := String_nat now\<rparr> in
      case saveAlarm out newAlarm (alarmStore s) of
        Inr st \<Rightarrow>
          s\<lparr>alarmStore := st,
            alarms := array_sort (\<lambda>x y. lc (time x) (time y)) (alarms s @ [newAlarm])\<rparr>
      | Inl e \<Rightarrow> s)"



text \<open>
  \<open>stopRinging\<close> at time \<open>now\<close> (milliseconds): the timeout it sets is due 61000 ms later.
\<close>

definition stopRinging :: "nat \<Rightarrow> alarm_state \<Rightarrow> alarm_state" where
  "stopRinging now s =
     (case ringingAlarm s of
        None \<Rightarrow> s
      | Some r \<Rightarrow>
          s\<lparr>ringingAlarm := None,
            ignoreForThisMinute := ignoreForThisMinute s @ [alarmId r],
            timeouts := timeouts s @ [(now + 61000, alarmId r)]\<rparr>)"



text \<open>The state after mounting: the alarms loaded from the store (none when loading fails).\<close>

definition mounted ::
  "(string \<Rightarrow> string \<Rightarrow> int) \<Rightarrow> db_outcome \<Rightarrow> alarm object_store \<Rightarrow> alarm_state" where
  "mounted lc out st =
     \<lparr>alarms = (case getAllAlarms lc out st of Inr xs \<Rightarrow> xs | Inl e \<Rightarrow> []),
      ringingAlarm = None,
      ignoreForThisMinute = [],
      alarmStore = st,
      timeouts = []\<rparr>"






section \<open>Example inputs for the alarm loop and the record store\<close>

definition monday_alarm :: alarm where
  "monday_alarm = \<lparr>alarmId = ''1700000000000'', time = ''07:05'', label = ''Wake Up'',
     isActive = True, days = [1, 2, 3]\<rparr>"

definition second_alarm :: alarm where
  "second_alarm = \<lparr>alarmId = ''1700000000001'', time = ''07:05'', label = ''Gym'',
     isActive = True, days = [1]\<rparr>"

definition two_alarms :: alarm_state where
  "two_alarms = \<lparr>alarms = [monday_alarm, second_alarm], ringingAlarm = None,
     ignoreForThisMinute = [],
     alarmStore = [(''1700000000000'', monday_alarm), (''1700000000001'', second_alarm)],
     timeouts = []\<rparr>"

definition monday_0705 :: clock where
  "monday_0705 = \<lparr>getHours = 7, getMinutes = 5, getDay = 1\<rparr>"

definition once_alarm :: alarm where
  "once_alarm = \<lparr>alarmId = ''1700000000002'', time = ''07:05'', label = ''Flight'',
     isActive = True, days = []\<rparr>"

definition once_state :: alarm_state where
  "once_state = \<lparr>alarms = [once_alarm], ringingAlarm = None, ignoreForThisMinute = [],
     alarmStore = [(''1700000000002'', once_alarm)], timeouts = []\<rparr>"

definition two_sessions :: "analysis_data object_store" where
  "two_sessions =
     [(''2024-03-01T06:30:00.000Z'',
       \<lparr>sleepScore = 70, summary = ''Restless'', events = [], stages = [], duration = 25200,
        date = ''2024-03-01T06:30:00.000Z''\<rparr>),
      (''2024-03-02T06:45:00.000Z'',
       \<lparr>sleepScore = 90, summary = ''Calm'', events = [], stages = [], duration = 21600,
        date = ''2024-03-02T06:45:00.000Z''\<rparr>)]"

text \<open>The value of \<open>getTime\<close> on the two dates above.\<close>

definition march_getTime :: "string \<Rightarrow> int option" where
  "march_getTime d =
     (if d = ''2024-03-01T06:30:00.000Z'' then Some 1709274600000
      else if d = ''2024-03-02T06:45:00.000Z'' then Some 1709361900000
      else None)"

definition late_alarm :: alarm where
  "late_alarm = \<lparr>alarmId = ''1700000000003'', time = ''22:30'', label = ''Bed'',
     isActive = True, days = []\<rparr>"

definition alarm_store3 :: "alarm object_store" where
  "alarm_store3 = [(''1700000000003'', late_alarm), (''1700000000002'', once_alarm)]"




section \<open>JSON values and thrown values\<close>

text \<open>
  Values of type \<open>any\<close>: what \<open>JSON.parse\<close> and \<open>response.json()\<close> return.  Numbers are
  restricted to integers.  \<open>truthy\<close> is the test \<open>||\<close> and \<open>!\<close> apply, \<open>ToString\<close> the
  conversion that \<open>new Error(v)\<close> and template literals apply.
\<close>

datatype json =
    JNull
  | JBool bool
  | JNum int
  | JStr string
  | JArr "json list"
  | JObj "(string \<times> json) list"

fun truthy :: "json \<Rightarrow> bool" where
  "truthy JNull = False"
| "truthy (JBool b) = b"
| "truthy (JNum n) = (n \<noteq> 0)"
| "truthy (JStr s) = (s \<noteq> [])"
| "truthy (JArr xs) = True"
| "truthy (JObj kvs) = True"

definition String_int :: "int \<Rightarrow> string" where
  "String_int n = (if n < 0 then CHR ''-'' # String_nat (nat (- n)) else String_nat (nat n))"

fun ToString :: "json \<Rightarrow> string"
  and joinElements :: "json list \<Rightarrow> string" where
  "ToString JNull = ''null''"
| "ToString (JBool b) = (if b then ''true'' else ''false'')"
| "ToString (JNum n) = String_int n"
| "ToString (JStr s) = s"
| "ToString (JArr xs) = joinElements xs"
| "ToString (JObj kvs) = ''[object Object]''"
| "joinElements [] = []"
| "joinElements [x] = (if x = JNull then [] else ToString x)"
| "joinElements (x # y # ys) =
     (if x = JNull then [] else ToString x) @ '','' @ joinElements (y # ys)"

text \<open>
  A thrown value: an \<open>Error\<close> object with its message, or a bare string (the store's
  operations reject with a string).  \<open>message\<close> is the property read \<open>err.message\<close>, with
  \<open>None\<close> for \<open>undefined\<close>.
\<close>

datatype thrown = ErrorObj string | StringValue string

fun message :: "thrown \<Rightarrow> string option" where
  "message (ErrorObj m) = Some m"
| "message (StringValue s) = None"

text \<open>
  The property read \<open>v.name\<close> for a name that no built-in prototype defines: a
  \<open>TypeError\<close> on \<open>null\<close>, the member of an object, \<open>undefined\<close> (\<open>None\<close>) otherwise.
  The wording of the engine's message is V8's.
\<close>

definition getProp :: "string \<Rightarrow> json \<Rightarrow> thrown + json option" where
  "getProp name v =
     (case v of
        JNull \<Rightarrow> Inl (ErrorObj (''Cannot read properties of null (reading '' @ name @ '')''))
      | JObj kvs \<Rightarrow> Inr (map_of kvs name)
      | _ \<Rightarrow> Inr None)"

section \<open>services/api: the gateway client\<close>

text \<open>
  What \<open>fetch\<close> gives \<open>postToApi\<close>: a rejection, a response that is not \<open>ok\<close> with its
  body as \<open>response.json()\<close> parses it (\<open>None\<close>: not JSON), or an \<open>ok\<close> response whose
  parsed body has the type the caller declares (\<open>None\<close>: not JSON, \<open>response.json()\<close>
  rejects).
\<close>

datatype 'a fetch_result =
    NetworkError string
  | ErrorResponse "json option"
  | OkResponse "'a option"

definition postToApi :: "'a fetch_result \<Rightarrow> thrown + 'a" where
  "postToApi r =
     (case r of
        NetworkError m \<Rightarrow> Inl (ErrorObj m)
      | ErrorResponse body \<Rightarrow>
          (let errorData =
                 (case body of
                    None \<Rightarrow> JObj [(''error'', JStr ''An unknown API error occurred.'')]
                  | Some j \<Rightarrow> j)
           in case getProp ''error'' errorData of
                Inl e \<Rightarrow> Inl e
              | Inr v \<Rightarrow>
                  Inl (ErrorObj
                    (case v of
                       None \<Rightarrow> ''Failed to fetch data from API.''
                     | Some x \<Rightarrow>
                         if truthy x then ToString x else ''Failed to fetch data from API.'')))
      | OkResponse body \<Rightarrow>
          (case body of
             None \<Rightarrow> Inl (ErrorObj ''Unexpected end of JSON input'')
           | Some result \<Rightarrow> Inr result))"

record suggestions_body =
  suggestions :: string

record analysis_body =
  analysis :: string

definition analyzeSleepAudio :: "analysis_result fetch_result \<Rightarrow> thrown + analysis_result" where
  "analyzeSleepAudio r = postToApi r"

definition getHealthSuggestions :: "suggestions_body fetch_result \<Rightarrow> thrown + string" where
  "getHealthSuggestions r =
     (case postToApi r of Inl e \<Rightarrow> Inl e | Inr result \<Rightarrow> Inr (suggestions result))"

definition getWeeklyAnalysis :: "analysis_body fetch_result \<Rightarrow> thrown + string" where
  "getWeeklyAnalysis r =
     (case postToApi r of Inl e \<Rightarrow> Inl e | Inr result \<Rightarrow> Inr (analysis result))"

definition getHistoricalAnalysis :: "analysis_body fetch_result \<Rightarrow> thrown + string" where
  "getHistoricalAnalysis r =
     (case postToApi r of Inl e \<Rightarrow> Inl e | Inr result \<Rightarrow> Inr (analysis result))"

section \<open>components/SleepTracker: the recording session controller\<close>

datatype tracker_status = Idle | Requesting | Tracking | Analyzing | Results | ErrorStatus

datatype recording_state = Inactive | Recording | Paused

type_synonym blob = "nat list"

text \<open>
  The recorder: its \<open>state\<close> and the data captured since the last \<open>dataavailable\<close> event,
  which \<open>stop()\<close> delivers in a final \<open>dataavailable\<close> event.  A stream is the list of its
  tracks; a track is live while its id is in \<open>liveTracks\<close>.
\<close>

record media_recorder =
  state :: recording_state
  pendingData :: blob

record media_stream =
  tracks :: "nat list"

text \<open>
  The component's state and refs (\<open>durationSec\<close> is the state variable \<open>duration\<close>,
  \<open>srcObject\<close> the property of the hidden audio element), followed by what the browser
  holds for it: the live tracks, the running interval timers, the object URLs not yet
  revoked and the \<open>sleepHistory\<close> object store.
\<close>

record tracker_state =
  status :: tracker_status
  analysisData :: "analysis_data option"
  healthSuggestions :: string
  error :: "string list"
  mediaRecorderRef :: "media_recorder option"
  audioChunksRef :: "blob list"
  audioStreamRef :: "media_stream option"
  srcObject :: "media_stream option"
  durationSec :: nat
  timerIntervalRef :: "nat option"
  sessionStartTime :: "nat option"
  audioURL :: "string option"
  liveTracks :: "nat set"
  activeIntervals :: "nat set"
  objectURLs :: "string set"
  historyStore :: "analysis_data object_store"

text \<open>The handler \<open>ondataavailable\<close> that \<open>handleStartTracking\<close> installs.\<close>

definition ondataavailable :: "blob \<Rightarrow> tracker_state \<Rightarrow> tracker_state" where
  "ondataavailable data s =
     (if length data > 0 then s\<lparr>audioChunksRef := audioChunksRef s @ [data]\<rparr> else s)"

definition cleanup :: "tracker_state \<Rightarrow> tracker_state" where
  "cleanup s =
     (let s1 = (case timerIntervalRef s of
                  None \<Rightarrow> s
                | Some h \<Rightarrow>
                    if h \<noteq> 0
                    then s\<lparr>activeIntervals := activeIntervals s - {h}, timerIntervalRef := None\<rparr>
                    else s);
          s2 = (case audioStreamRef s1 of
                  None \<Rightarrow> s1
                | Some stream \<Rightarrow>
                    s1\<lparr>liveTracks := liveTracks s1 - set (tracks stream),
                       audioStreamRef := None\<rparr>);
          s3 = (case mediaRecorderRef s2 of
                  None \<Rightarrow> s2
                | Some r \<Rightarrow>
                    if state r = Recording then ondataavailable (pendingData r) s2 else s2);
          s4 = s3\<lparr>mediaRecorderRef := None\<rparr>
      in s4\<lparr>srcObject := None\<rparr>)"

definition resetState :: "tracker_state \<Rightarrow> tracker_state" where
  "resetState s =
     (let s1 = (case audioURL s of
                  None \<Rightarrow> s
                | Some u \<Rightarrow> if u \<noteq> [] then s\<lparr>objectURLs := objectURLs s - {u}\<rparr> else s);
          s2 = cleanup s1
      in s2\<lparr>status := Idle, analysisData := None, healthSuggestions := [], error := [],
            durationSec := 0, audioURL := None, sessionStartTime := None\<rparr>)"

text \<open>
  What the environment supplies while a stopped session is analysed: the URL that
  \<open>URL.createObjectURL\<close> returns, \<open>reader.result\<close> at \<open>loadend\<close> (\<open>None\<close> for \<open>null\<close>), the
  outcome of the two gateway requests and of the store's \<open>add\<close>, and the time stamp
  \<open>new Date().toISOString()\<close>.
\<close>

record analysis_env =
  createObjectURL :: string
  readerResult :: "string option"
  analyzeResponse :: "analysis_result fetch_result"
  toISOString :: string
  addOutcome :: db_outcome
  suggestionsResponse :: "suggestions_body fetch_result"

text \<open>
  React applies the state updates that one synchronous run of a callback makes together,
  when the run is over: of the \<open>setStatus\<close> calls of one run, in call order, the last
  one decides the value the status takes, and the earlier arguments are never held.
\<close>

definition batched :: "tracker_status list \<Rightarrow> tracker_status list" where
  "batched calls = (if calls = [] then [] else [last calls])"

text \<open>
  The handlers return the successive values the status takes on, in order, next to the
  resulting state.  \<open>caught\<close> is the \<open>catch\<close> block of \<open>onloadend\<close> followed by its
  \<open>finally\<close>.  The two requests go out with the encoded audio, the elapsed duration and
  the saved record; what comes back is the environment's.  When \<open>reader.result\<close> is
  \<open>null\<close>, the \<open>split\<close> in front of the \<open>try\<close> block throws and nothing further runs.
  In \<open>onstop\<close> the run that starts with \<open>setStatus('analyzing')\<close> either goes on to
  \<open>setStatus('error')\<close> and returns, or ends where the reader is started; \<open>onloadend\<close>
  is a later callback.
\<close>

definition caught :: "thrown \<Rightarrow> tracker_state \<Rightarrow> tracker_status list \<times> tracker_state" where
  "caught err s =
     ([ErrorStatus],
      cleanup (s\<lparr>error :=
                   [case message err of
                      None \<Rightarrow> ''Failed to analyze sleep audio. Please try again.''
                    | Some m \<Rightarrow>
                        if m \<noteq> [] then m
                        else ''Failed to analyze sleep audio. Please try again.''],
                 status := ErrorStatus\<rparr>))"

text \<open>The spread \<open>{ ...analysisResult, date }\<close>.\<close>

definition withDate :: "analysis_result \<Rightarrow> string \<Rightarrow> analysis_data" where
  "withDate r d =
     \<lparr>sleepScore = sleepScore r, summary = summary r, events = events r, stages = stages r,
      duration = duration r, date = d\<rparr>"

definition onloadend :: "analysis_env \<Rightarrow> tracker_state \<Rightarrow> tracker_status list \<times> tracker_state" where
  "onloadend env s =
     (case analyzeSleepAudio (analyzeResponse env) of
        Inl err \<Rightarrow> caught err s
      | Inr analysisResult \<Rightarrow>
          (let dataToSave = withDate analysisResult (toISOString env);
               s1 = s\<lparr>analysisData := Some dataToSave\<rparr>
           in case addSleepSession (addOutcome env) dataToSave (historyStore s1) of
                Inl msg \<Rightarrow> caught (StringValue msg) s1
              | Inr st \<Rightarrow>
                  (let s2 = s1\<lparr>historyStore := st\<rparr>
                   in case getHealthSuggestions (suggestionsResponse env) of
                        Inl err \<Rightarrow> caught err s2
                      | Inr sug \<Rightarrow>
                          ([Results],
                           cleanup (s2\<lparr>healthSuggestions := sug, status := Results\<rparr>)))))"

definition onstop :: "analysis_env \<Rightarrow> tracker_state \<Rightarrow> tracker_status list \<times> tracker_state" where
  "onstop env s =
     (let s1 = s\<lparr>status := Analyzing\<rparr>
      in if length (audioChunksRef s1) = 0 then
           (batched [Analyzing, ErrorStatus],
            cleanup (s1\<lparr>error := [''[Final Check] No audio chunks were recorded. The stream might have been silent or stopped unexpectedly.''],
                       status := ErrorStatus\<rparr>))
         else
           (let s2 = s1\<lparr>audioURL := Some (createObjectURL env),
                         objectURLs := insert (createObjectURL env) (objectURLs s1)\<rparr>
            in case readerResult env of
                 None \<Rightarrow> (batched [Analyzing], s2)
               | Some result \<Rightarrow>
                   (let r = onloadend env s2 in (batched [Analyzing] @ fst r, snd r))))"

definition handleStopAndAnalyze ::
  "analysis_env \<Rightarrow> tracker_state \<Rightarrow> tracker_status list \<times> tracker_state" where
  "handleStopAndAnalyze env s =
     (case mediaRecorderRef s of
        None \<Rightarrow> ([], s)
      | Some r \<Rightarrow>
          if state r = Recording then
            onstop env
              (ondataavailable (pendingData r)
                 (s\<lparr>mediaRecorderRef := Some (r\<lparr>state := Inactive, pendingData := []\<rparr>)\<rparr>))
          else ([], s))"

text \<open>Example sessions and environments.\<close>

definition silent_session :: tracker_state where
  "silent_session =
     \<lparr>status = Tracking, analysisData = None, healthSuggestions = [], error = [],
      mediaRecorderRef = Some \<lparr>state = Recording, pendingData = []\<rparr>,
      audioChunksRef = [],
      audioStreamRef = Some \<lparr>tracks = [1]\<rparr>,
      srcObject = Some \<lparr>tracks = [1]\<rparr>,
      durationSec = 3, timerIntervalRef = Some 7, sessionStartTime = Some 1700000000000,
      audioURL = None, liveTracks = {1}, activeIntervals = {7}, objectURLs = {},
      historyStore = []\<rparr>"

definition recorded_session :: tracker_state where
  "recorded_session = silent_session\<lparr>audioChunksRef := [[26, 69, 223, 163]], durationSec := 28800\<rparr>"

definition good_night :: analysis_result where
  "good_night = \<lparr>sleepScore = 80, summary = ''Calm night'', events = [], stages = [],
     duration = 28800\<rparr>"

definition gateway_down :: analysis_env where
  "gateway_down =
     \<lparr>createObjectURL = ''blob:1'', readerResult = Some ''data:audio/webm;base64,GkXfow=='',
      analyzeResponse = ErrorResponse (Some (JObj [(''error'', JStr ''quota exceeded'')])),
      toISOString = ''2024-03-03T06:30:00.000Z'', addOutcome = DbOk,
      suggestionsResponse = OkResponse (Some \<lparr>suggestions = ''<p>Sleep well</p>''\<rparr>)\<rparr>"

definition suggestions_down :: analysis_env where
  "suggestions_down =
     gateway_down\<lparr>analyzeResponse := OkResponse (Some good_night),
       suggestionsResponse := ErrorResponse (Some (JObj [(''error'', JArr [])]))\<rparr>"

definition initial_tracker :: tracker_state where
  "initial_tracker =
     \<lparr>status = Idle, analysisData = None, healthSuggestions = [], error = [],
      mediaRecorderRef = None, audioChunksRef = [], audioStreamRef = None, srcObject = None,
      durationSec = 0, timerIntervalRef = None, sessionStartTime = None, audioURL = None,
      liveTracks = {}, activeIntervals = {}, objectURLs = {}, historyStore = []\<rparr>"

section \<open>netlify/functions/gemini: the gateway\<close>

text \<open>
  The request the gateway sends to the remote model, by the values its prompt is built
  from, and the two host functions the gateway relies on: \<open>JSON.parse\<close> and the remote
  call \<open>ai.models.generateContent\<close>, whose result is \<open>response.text\<close> (\<open>None\<close> for
  \<open>undefined\<close>).  Both may throw.
\<close>

datatype ai_request =
    AnalyzeAudioRequest json int
  | SuggestionsRequest json
  | WeeklyRequest "json list"
  | HistoricalRequest "json list"

record gateway_env =
  JSON_parse :: "string \<Rightarrow> thrown + json"
  generateContent :: "ai_request \<Rightarrow> thrown + string option"

definition isSpace :: "char \<Rightarrow> bool" where
  "isSpace c \<longleftrightarrow> c \<in> set [CHR '' '', CHR 0x09, CHR 0x0A, CHR 0x0B, CHR 0x0C, CHR 0x0D]"

definition trim :: "string \<Rightarrow> string" where
  "trim s = rev (dropWhile isSpace (rev (dropWhile isSpace s)))"

text \<open>
  Reading properties of the payload, which is \<open>undefined\<close> (\<open>None\<close>) when the body has
  no such member: destructuring or reading a property of \<open>undefined\<close> or \<open>null\<close> throws.
\<close>

definition propOf :: "string \<Rightarrow> json option \<Rightarrow> thrown + json option" where
  "propOf name v =
     (case v of
        None \<Rightarrow>
          Inl (ErrorObj (''Cannot read properties of undefined (reading '' @ name @ '')''))
      | Some j \<Rightarrow> getProp name j)"

definition isNumber :: "json option \<Rightarrow> bool" where
  "isNumber v = (case v of Some (JNum n) \<Rightarrow> True | _ \<Rightarrow> False)"

definition numberOf :: "json option \<Rightarrow> int" where
  "numberOf v = (case v of Some (JNum n) \<Rightarrow> n | _ \<Rightarrow> 0)"

definition handleAnalyzeSleepAudio :: "gateway_env \<Rightarrow> json option \<Rightarrow> thrown + json" where
  "handleAnalyzeSleepAudio env payload =
     (case propOf ''audioBase64'' payload of
        Inl e \<Rightarrow> Inl e
      | Inr audioBase64 \<Rightarrow>
          (case propOf ''duration'' payload of
             Inl e \<Rightarrow> Inl e
           | Inr duration' \<Rightarrow>
               (case audioBase64 of
                  None \<Rightarrow> Inl (ErrorObj ''Missing audio data or duration.'')
                | Some audio \<Rightarrow>
                    if \<not> truthy audio \<or> \<not> isNumber duration'
                    then Inl (ErrorObj ''Missing audio data or duration.'')
                    else
                      (case generateContent env (AnalyzeAudioRequest audio (numberOf duration')) of
                         Inl e \<Rightarrow> Inl e
                       | Inr text \<Rightarrow>
                           (case text of
                              None \<Rightarrow>
                                Inl (ErrorObj
                                  ''Cannot read properties of undefined (reading trim)'')
                            | Some t \<Rightarrow> JSON_parse env (trim t))))))"

text \<open>
  \<open>{ suggestions: response.text }\<close> and \<open>{ analysis: response.text }\<close> as
  \<open>JSON.stringify\<close> sees them: a member that is \<open>undefined\<close> is left out.
\<close>

definition textObject :: "string \<Rightarrow> string option \<Rightarrow> json" where
  "textObject name text =
     (case text of None \<Rightarrow> JObj [] | Some t \<Rightarrow> JObj [(name, JStr t)])"

definition handleGetHealthSuggestions :: "gateway_env \<Rightarrow> json option \<Rightarrow> thrown + json" where
  "handleGetHealthSuggestions env payload =
     (case payload of
        None \<Rightarrow> Inl (ErrorObj ''Cannot read properties of undefined (reading summary)'')
      | Some analysis' \<Rightarrow>
          (case getProp ''summary'' analysis' of
             Inl e \<Rightarrow> Inl e
           | Inr summary' \<Rightarrow>
               (case generateContent env (SuggestionsRequest analysis') of
                  Inl e \<Rightarrow> Inl e
                | Inr text \<Rightarrow> Inr (textObject ''suggestions'' text))))"

text \<open>
  The callbacks of \<open>history.map\<close>: \<open>entry.date.split('T')\<close> needs a string,
  \<open>entry.events.reduce\<close> an array whose elements are not \<open>null\<close>; anything else is a
  \<open>TypeError\<close>.
\<close>

definition hasDate :: "json \<Rightarrow> bool" where
  "hasDate entry =
     (case entry of
        JObj kvs \<Rightarrow> (case map_of kvs ''date'' of Some (JStr d) \<Rightarrow> True | _ \<Rightarrow> False)
      | _ \<Rightarrow> False)"

definition hasEvents :: "json \<Rightarrow> bool" where
  "hasEvents entry =
     (case entry of
        JObj kvs \<Rightarrow>
          (case map_of kvs ''events'' of Some (JArr evs) \<Rightarrow> JNull \<notin> set evs | _ \<Rightarrow> False)
      | _ \<Rightarrow> False)"

definition handleGetWeeklyAnalysis :: "gateway_env \<Rightarrow> json option \<Rightarrow> thrown + json" where
  "handleGetWeeklyAnalysis env payload =
     (case payload of
        Some (JArr history) \<Rightarrow>
          if list_all (\<lambda>entry. hasDate entry \<and> hasEvents entry) history then
            (case generateContent env (WeeklyRequest history) of
               Inl e \<Rightarrow> Inl e
             | Inr text \<Rightarrow> Inr (textObject ''analysis'' text))
          else Inl (ErrorObj ''Cannot read properties of undefined'')
      | _ \<Rightarrow> Inl (ErrorObj ''history.map is not a function''))"

definition handleGetHistoricalAnalysis :: "gateway_env \<Rightarrow> json option \<Rightarrow> thrown + json" where
  "handleGetHistoricalAnalysis env payload =
     (case payload of
        Some (JArr history) \<Rightarrow>
          if list_all hasDate history then
            (case generateContent env (HistoricalRequest history) of
               Inl e \<Rightarrow> Inl e
             | Inr text \<Rightarrow> Inr (textObject ''analysis'' text))
          else Inl (ErrorObj ''Cannot read properties of undefined'')
      | _ \<Rightarrow> Inl (ErrorObj ''history.map is not a function''))"

text \<open>
  The event and the response of the function.  A response body is either a literal text
  or the result of \<open>JSON.stringify\<close> on a value.
\<close>

record handler_event =
  httpMethod :: string
  body :: "string option"

datatype response_body = PlainText string | Stringify json

record handler_response =
  statusCode :: nat
  headers :: "(string \<times> string) list"
  responseBody :: response_body

text \<open>The \<open>try\<close> block of \<open>handler\<close>: the result to send, or what was thrown.\<close>

definition dispatch :: "gateway_env \<Rightarrow> handler_event \<Rightarrow> thrown + json" where
  "dispatch env event =
     (case JSON_parse env (case body event of None \<Rightarrow> ''{}'' | Some b \<Rightarrow> if b = [] then ''{}'' else b) of
        Inl e \<Rightarrow> Inl e
      | Inr parsed \<Rightarrow>
          (case getProp ''type'' parsed of
             Inl e \<Rightarrow> Inl e
           | Inr type \<Rightarrow>
               (case getProp ''payload'' parsed of
                  Inl e \<Rightarrow> Inl e
                | Inr payload \<Rightarrow>
                    if type = Some (JStr ''analyzeSleepAudio'')
                      then handleAnalyzeSleepAudio env payload
                    else if type = Some (JStr ''getHealthSuggestions'')
                      then handleGetHealthSuggestions env payload
                    else if type = Some (JStr ''getWeeklyAnalysis'')
                      then handleGetWeeklyAnalysis env payload
                    else if type = Some (JStr ''getHistoricalAnalysis'')
                      then handleGetHistoricalAnalysis env payload
                    else Inl (ErrorObj (''Unknown API call type: '' @
                           (case type of None \<Rightarrow> ''undefined'' | Some t \<Rightarrow> ToString t))))))"

definition handler :: "gateway_env \<Rightarrow> handler_event \<Rightarrow> handler_response" where
  "handler env event =
     (if httpMethod event \<noteq> ''POST'' then
        \<lparr>statusCode = 405, headers = [], responseBody = PlainText ''Method Not Allowed''\<rparr>
      else
        (case dispatch env event of
           Inr result \<Rightarrow>
             \<lparr>statusCode = 200, headers = [(''Content-Type'', ''application/json'')],
              responseBody = Stringify result\<rparr>
         | Inl err \<Rightarrow>
             \<lparr>statusCode = 500, headers = [],
              responseBody = Stringify (JObj [(''error'',
                JStr (case message err of
                        None \<Rightarrow> ''An internal server error occurred.''
                      | Some m \<Rightarrow>
                          if m \<noteq> [] then m else ''An internal server error occurred.''))])\<rparr>))"

text \<open>A body of the shape \<open>{ error: string }\<close>.\<close>

definition isErrorObject :: "response_body \<Rightarrow> bool" where
  "isErrorObject b =
     (case b of
        Stringify (JObj [(k, JStr m)]) \<Rightarrow> k = ''error''
      | _ \<Rightarrow> False)"

text \<open>Example requests.\<close>

definition get_request :: handler_event where
  "get_request = \<lparr>httpMethod = ''GET'', body = None\<rparr>"

definition ping_request :: handler_event where
  "ping_request = \<lparr>httpMethod = ''POST'', body = Some ''{\"type\":\"ping\"}''\<rparr>"

definition suggestions_request :: handler_event where
  "suggestions_request =
     \<lparr>httpMethod = ''POST'',
      body = Some ''{\"type\":\"getHealthSuggestions\",\"payload\":{\"summary\":\"Calm\"}}''\<rparr>"

text \<open>
  A host for the examples: \<open>JSON.parse\<close> on the two bodies above, and a remote model that
  answers every request with the same paragraph.
\<close>

definition example_env :: gateway_env where
  "example_env =
     \<lparr>JSON_parse = (\<lambda>s.
        if s = ''{\"type\":\"ping\"}'' then Inr (JObj [(''type'', JStr ''ping'')])
        else if s = ''{\"type\":\"getHealthSuggestions\",\"payload\":{\"summary\":\"Calm\"}}''
          then Inr (JObj [(''type'', JStr ''getHealthSuggestions''),
                          (''payload'', JObj [(''summary'', JStr ''Calm'')])])
        else if s = ''{}'' then Inr (JObj [])
        else Inl (ErrorObj ''Unexpected token'')),
      generateContent = (\<lambda>r. Inr (Some ''<p>Keep it up</p>''))\<rparr>"

section \<open>components/Dashboard: the aggregates\<close>







text \<open>
  \<open>DashboardContent\<close>: the two memoised averages, which the two metric cards show.
\<close>

record metrics =
  avgScore :: int
  avgDuration :: rat


datatype dashboard_view = EmptyState | NoDataForRange | Content metrics







section \<open>Array sort and the record store\<close>

lemma set_insert_cmp: "set (insert_cmp cmp x xs) = insert x (set xs)"
  by (induction xs) auto

lemma mset_insert_cmp: "mset (insert_cmp cmp x xs) = add_mset x (mset xs)"
  by (induction xs) auto

lemma mset_array_sort: "mset (array_sort cmp xs) = mset xs"
  by (induction xs) (simp_all add: array_sort_def mset_insert_cmp)

lemma set_array_sort: "set (array_sort cmp xs) = set xs"
  using mset_array_sort [of cmp xs] by (metis set_mset_mset)

lemma sorted_insert_cmp:
  assumes c: "consistent_on A cmp"
    and "x \<in> A" and "set xs \<subseteq> A"
    and "sorted_wrt (\<lambda>a b. cmp a b \<le> 0) xs"
  shows "sorted_wrt (\<lambda>a b. cmp a b \<le> 0) (insert_cmp cmp x xs)"
  using assms(2-)
proof (induction xs)
  case Nil
  then show ?case by simp
next
  case (Cons y ys)
  show ?case
  proof (cases "cmp x y \<le> 0")
    case True
    have "\<forall>z\<in>set ys. cmp x z \<le> 0"
    proof
      fix z assume z: "z \<in> set ys"
      then have "cmp y z \<le> 0" using Cons.prems(3) by simp
      moreover have "x \<in> A" "y \<in> A" "z \<in> A" using Cons.prems(1,2) z by auto
      ultimately show "cmp x z \<le> 0" using c True unfolding consistent_on_def by blast
    qed
    then show ?thesis using True Cons.prems(3) by simp
  next
    case False
    have "x \<in> A" "y \<in> A" using Cons.prems(1,2) by auto
    then have yx: "cmp y x \<le> 0" using c False unfolding consistent_on_def by blast
    have "sorted_wrt (\<lambda>a b. cmp a b \<le> 0) (insert_cmp cmp x ys)"
      using Cons by simp
    then show ?thesis using False yx Cons.prems(3) by (simp add: set_insert_cmp)
  qed
qed

lemma sorted_array_sort:
  assumes c: "consistent_on A cmp" and "set xs \<subseteq> A"
  shows "sorted_wrt (\<lambda>a b. cmp a b \<le> 0) (array_sort cmp xs)"
  using assms(2)
proof (induction xs)
  case Nil
  then show ?case by (simp add: array_sort_def)
next
  case (Cons x xs)
  have s: "sorted_wrt (\<lambda>a b. cmp a b \<le> 0) (array_sort cmp xs)" using Cons by simp
  have x: "x \<in> A" using Cons.prems by simp
  have sub: "set (array_sort cmp xs) \<subseteq> A" using Cons.prems by (simp add: set_array_sort)
  have "sorted_wrt (\<lambda>a b. cmp a b \<le> 0) (insert_cmp cmp x (array_sort cmp xs))"
    by (rule sorted_insert_cmp [OF c x sub s])
  then show ?case by (simp add: array_sort_def)
qed

lemma mset_store_getAll: "mset (store_getAll st) = mset (map snd st)"
  by (simp add: store_getAll_def)

lemma map_of_store_put: "map_of (store_put k r st) k = Some r"
  by (simp add: store_put_def)

lemma sorted_alarms:
  assumes "consistent_comparator lc"
  shows "sorted_wrt (\<lambda>a b. lc (time a) (time b) \<le> 0)
           (array_sort (\<lambda>a b. lc (time a) (time b)) xs)"
proof -
  have "consistent_on UNIV (\<lambda>a b. lc (time a) (time b))"
    using assms unfolding consistent_comparator_def consistent_on_def by blast
  then show ?thesis by (rule sorted_array_sort) simp
qed

lemma dateCompare_valid:
  "validDate getTime a \<Longrightarrow> validDate getTime b \<Longrightarrow>
   dateCompare getTime a b \<le> 0 \<longleftrightarrow> notEarlier getTime a b"
  by (auto simp: dateCompare_def validDate_def notEarlier_def)

lemma sorted_sessions:
  assumes "\<forall>r \<in> set xs. validDate getTime r"
  shows "sorted_wrt (notEarlier getTime) (array_sort (dateCompare getTime) xs)"
proof -
  have "consistent_on {r. validDate getTime r} (dateCompare getTime)"
    unfolding consistent_on_def by (auto simp: dateCompare_def validDate_def)
  moreover have "set xs \<subseteq> {r. validDate getTime r}" using assms by auto
  ultimately have s: "sorted_wrt (\<lambda>a b. dateCompare getTime a b \<le> 0)
      (array_sort (dateCompare getTime) xs)"
    by (rule sorted_array_sort)
  have v: "\<forall>r \<in> set (array_sort (dateCompare getTime) xs). validDate getTime r"
    using assms by (simp add: set_array_sort)
  show ?thesis
    by (rule sorted_wrt_mono_rel [OF _ s]) (use v dateCompare_valid in blast)
qed

text \<open>
  C6.  When the store answers, \<open>getAllAlarms\<close> returns exactly the alarm records of the
  store, ordered so that the comparison of the time strings of an earlier and a later
  record is never positive (ascending time string), for every consistent \<open>localeCompare\<close>;
  and \<open>getSleepHistory\<close> returns exactly the session records of the store, each one not
  earlier in date than those after it (descending date), provided the dates in the store
  are valid dates, as the time stamps written by the application are.
\<close>

theorem getAll_sorted:
  "(consistent_comparator lc \<longrightarrow>
      (\<exists>xs. getAllAlarms lc DbOk st = Inr xs \<and>
            sorted_wrt (\<lambda>a b. lc (time a) (time b) \<le> 0) xs \<and>
            mset xs = mset (map snd st))) \<and>
   ((\<forall>r \<in> set (map snd hs). validDate getTime r) \<longrightarrow>
      (\<exists>ys. getSleepHistory getTime DbOk hs = Inr ys \<and>
            sorted_wrt (notEarlier getTime) ys \<and>
            mset ys = mset (map snd hs)))"
proof (intro conjI impI)
  assume "consistent_comparator lc"
  then show "\<exists>xs. getAllAlarms lc DbOk st = Inr xs \<and>
            sorted_wrt (\<lambda>a b. lc (time a) (time b) \<le> 0) xs \<and>
            mset xs = mset (map snd st)"
    by (simp add: getAllAlarms_def sorted_alarms mset_array_sort mset_store_getAll)
next
  assume v: "\<forall>r \<in> set (map snd hs). validDate getTime r"
  have "set (store_getAll hs) = set (map snd hs)"
    using mset_store_getAll [of hs] by (metis set_mset_mset)
  then have "\<forall>r \<in> set (store_getAll hs). validDate getTime r" using v by simp
  then show "\<exists>ys. getSleepHistory getTime DbOk hs = Inr ys \<and>
            sorted_wrt (notEarlier getTime) ys \<and>
            mset ys = mset (map snd hs)"
    by (simp add: getSleepHistory_def sorted_sessions mset_array_sort mset_store_getAll)
qed

lemma consistent_codeUnitCompare: "consistent_comparator codeUnitCompare"
  unfolding consistent_comparator_def codeUnitCompare_def
  by (auto split: if_splits)

text \<open>
  Two alarms stored under ids in the opposite order come back by time; two sessions come
  back latest first.
\<close>

theorem getAll_sorted_witness:
  "consistent_comparator codeUnitCompare \<and>
   getAllAlarms codeUnitCompare DbOk alarm_store3 = Inr [once_alarm, late_alarm] \<and>
   validDate march_getTime (snd (hd two_sessions)) \<and>
   validDate march_getTime (snd (hd (tl two_sessions))) \<and>
   getSleepHistory march_getTime DbOk two_sessions =
     Inr [snd (hd (tl two_sessions)), snd (hd two_sessions)]"
proof -
  have v: "\<forall>r \<in> set (map snd two_sessions). validDate march_getTime r"
    by (simp add: two_sessions_def validDate_def march_getTime_def)
  have v1: "validDate march_getTime (snd (hd two_sessions))"
    by (simp add: two_sessions_def validDate_def march_getTime_def)
  have v2: "validDate march_getTime (snd (hd (tl two_sessions)))"
    by (simp add: two_sessions_def validDate_def march_getTime_def)
  have a: "getAllAlarms codeUnitCompare DbOk alarm_store3 = Inr [once_alarm, late_alarm]"
    by (simp add: getAllAlarms_def alarm_store3_def store_getAll_def array_sort_def
        codeUnitCompare_def once_alarm_def late_alarm_def)
  have h: "getSleepHistory march_getTime DbOk two_sessions =
     Inr [snd (hd (tl two_sessions)), snd (hd two_sessions)]"
    by (simp add: getSleepHistory_def two_sessions_def store_getAll_def array_sort_def
        dateCompare_def march_getTime_def)
  show ?thesis
    using getAll_sorted [of codeUnitCompare alarm_store3 two_sessions march_getTime]
      consistent_codeUnitCompare v v1 v2 a h
    by simp
qed

section \<open>The alarm evaluation loop\<close>

lemma scanAlarms_find: "scanAlarms now ign xs = List.find (shouldRing now ign) xs"
  by (induction xs) auto

lemma scanAlarms_Some_iff:
  "scanAlarms now ign xs = Some a \<longleftrightarrow>
     (\<exists>i<length xs. xs ! i = a \<and> shouldRing now ign a \<and>
        (\<forall>j<i. \<not> shouldRing now ign (xs ! j)))"
  unfolding scanAlarms_find find_Some_iff by auto

lemma ringing_checkAlarms:
  "ringingAlarm s = None \<Longrightarrow>
   ringingAlarm (checkAlarms out now s) = scanAlarms now (ignoreForThisMinute s) (alarms s)"
  by (simp add: checkAlarms_def Let_def saveAlarm_def
      split: option.splits sum.splits db_outcome.splits)

lemma currentTime_0705: "currentTime monday_0705 = ''07:05''"
  by (simp add: currentTime_def monday_0705_def padStart_def String_nat.simps digit_char_def)

lemma getDay_0705: "getDay monday_0705 = 1"
  by (simp add: monday_0705_def)

lemma padStart_two_digits:
  assumes "n < 100"
  shows "padStart 2 (CHR ''0'') (String_nat n) =
           [''0123456789'' ! (n div 10), ''0123456789'' ! (n mod 10)]"
proof (cases "n < 10")
  case True
  then show ?thesis by (simp add: String_nat.simps [of n] padStart_def digit_char_def)
next
  case False
  then have "n div 10 < 10" using assms by simp
  then show ?thesis using False
    by (simp add: String_nat.simps [of n] String_nat.simps [of "n div 10"] padStart_def
        digit_char_def)
qed

lemma currentTime_digits:
  assumes "getHours now < 24" and "getMinutes now < 60"
  shows "currentTime now =
     [''0123456789'' ! (getHours now div 10), ''0123456789'' ! (getHours now mod 10), CHR '':'',
      ''0123456789'' ! (getMinutes now div 10), ''0123456789'' ! (getMinutes now mod 10)]"
  using assms by (simp add: currentTime_def padStart_two_digits)

text \<open>
  C1.  Let the clock read hour \<open>h < 24\<close> and minute \<open>m < 60\<close>, and let \<open>hhmm\<close> be the five
  characters tens digit of \<open>h\<close>, units digit of \<open>h\<close>, colon, tens digit of \<open>m\<close>, units digit
  of \<open>m\<close>.  With no alarm ringing, a tick makes an alarm \<open>a\<close> with a non-empty day-set the
  ringing alarm exactly when \<open>a\<close> is active, its time string equals \<open>hhmm\<close>, its id is not
  suppressed and the weekday is in its day-set, and \<open>a\<close> stands at a position of the list
  before which no alarm is active, has the time \<open>hhmm\<close>, is not suppressed and has an
  empty day-set or one that contains the weekday: of several matching alarms only the
  first in list order starts ringing.
\<close>

theorem checkAlarms_rings_iff:
  assumes "ringingAlarm s = None" and "days a \<noteq> []"
    and "getHours now < 24" and "getMinutes now < 60"
    and "hhmm = [''0123456789'' ! (getHours now div 10), ''0123456789'' ! (getHours now mod 10),
                 CHR '':'',
                 ''0123456789'' ! (getMinutes now div 10), ''0123456789'' ! (getMinutes now mod 10)]"
  shows "ringingAlarm (checkAlarms out now s) = Some a \<longleftrightarrow>
           (isActive a \<and> time a = hhmm \<and>
            alarmId a \<notin> set (ignoreForThisMinute s) \<and> getDay now \<in> set (days a)) \<and>
           (\<exists>i<length (alarms s). alarms s ! i = a \<and>
              (\<forall>j<i. \<not> (isActive (alarms s ! j) \<and> time (alarms s ! j) = hhmm \<and>
                           alarmId (alarms s ! j) \<notin> set (ignoreForThisMinute s) \<and>
                           (days (alarms s ! j) = [] \<or> getDay now \<in> set (days (alarms s ! j))))))"
proof -
  have t: "currentTime now = hhmm" using assms(3-5) by (simp add: currentTime_digits)
  have "shouldRing now (ignoreForThisMinute s) a \<longleftrightarrow> isActive a \<and> time a = hhmm \<and>
          alarmId a \<notin> set (ignoreForThisMinute s) \<and> getDay now \<in> set (days a)"
    using assms(2) by (simp add: shouldRing_def t)
  moreover have "\<And>x. shouldRing now (ignoreForThisMinute s) x \<longleftrightarrow>
          isActive x \<and> time x = hhmm \<and> alarmId x \<notin> set (ignoreForThisMinute s) \<and>
          (days x = [] \<or> getDay now \<in> set (days x))"
    by (simp add: shouldRing_def t)
  ultimately show ?thesis
    unfolding ringing_checkAlarms [OF assms(1)] scanAlarms_Some_iff by blast
qed

lemma clock_0705: "getHours monday_0705 = 7 \<and> getMinutes monday_0705 = 5"
  by (simp add: monday_0705_def)

text \<open>
  Two alarms match Monday 07:05; the first one rings and the second, which satisfies the
  four conditions as well, does not.
\<close>

theorem checkAlarms_rings_iff_witness:
  "ringingAlarm two_alarms = None \<and> days monday_alarm \<noteq> [] \<and>
   getHours monday_0705 < 24 \<and> getMinutes monday_0705 < 60 \<and>
   ''07:05'' = [''0123456789'' ! (getHours monday_0705 div 10),
                ''0123456789'' ! (getHours monday_0705 mod 10), CHR '':'',
                ''0123456789'' ! (getMinutes monday_0705 div 10),
                ''0123456789'' ! (getMinutes monday_0705 mod 10)] \<and>
   ringingAlarm (checkAlarms DbOk monday_0705 two_alarms) = Some monday_alarm \<and>
   ringingAlarm (checkAlarms DbOk monday_0705 two_alarms) \<noteq> Some second_alarm \<and>
   isActive second_alarm \<and> time second_alarm = ''07:05'' \<and>
   alarmId second_alarm \<notin> set (ignoreForThisMinute two_alarms) \<and>
   getDay monday_0705 \<in> set (days second_alarm)"
proof -
  have h1: "ringingAlarm two_alarms = None" by (simp add: two_alarms_def)
  have h2: "days monday_alarm \<noteq> []" by (simp add: monday_alarm_def)
  have h3: "getHours monday_0705 < 24" and h4: "getMinutes monday_0705 < 60"
    by (simp_all add: clock_0705)
  have h5: "''07:05'' = [''0123456789'' ! (getHours monday_0705 div 10),
                ''0123456789'' ! (getHours monday_0705 mod 10), CHR '':'',
                ''0123456789'' ! (getMinutes monday_0705 div 10),
                ''0123456789'' ! (getMinutes monday_0705 mod 10)]"
    by (simp add: clock_0705)
  have c: "isActive monday_alarm \<and> time monday_alarm = ''07:05'' \<and>
            alarmId monday_alarm \<notin> set (ignoreForThisMinute two_alarms) \<and>
            getDay monday_0705 \<in> set (days monday_alarm)"
    by (simp add: monday_alarm_def two_alarms_def getDay_0705)
  have e: "\<exists>i<length (alarms two_alarms). alarms two_alarms ! i = monday_alarm \<and>
              (\<forall>j<i. \<not> (isActive (alarms two_alarms ! j) \<and> time (alarms two_alarms ! j) = ''07:05'' \<and>
                   alarmId (alarms two_alarms ! j) \<notin> set (ignoreForThisMinute two_alarms) \<and>
                   (days (alarms two_alarms ! j) = [] \<or>
                    getDay monday_0705 \<in> set (days (alarms two_alarms ! j)))))"
    by (rule exI [of _ 0]) (simp add: two_alarms_def)
  have r: "ringingAlarm (checkAlarms DbOk monday_0705 two_alarms) = Some monday_alarm"
    using checkAlarms_rings_iff [OF h1 h2 h3 h4 h5, of DbOk] c e by blast
  have d: "monday_alarm \<noteq> second_alarm" by (simp add: monday_alarm_def second_alarm_def)
  show ?thesis using h1 h2 h3 h4 h5 r d
    by (simp add: second_alarm_def two_alarms_def getDay_0705)
qed

text \<open>
  C3.  When a tick starts the ringing of an alarm \<open>a\<close>: if \<open>a\<close> is one-shot and the store
  accepts the write, the state after the tick already holds \<open>a\<close> with \<open>isActive = False\<close>
  under its id in the store and in place of every in-memory alarm with that id, and
  dismissing at any time leaves the store as it is; if \<open>a\<close> has a non-empty day-set, the
  tick changes neither the store nor the in-memory alarms.
\<close>

theorem one_shot_deactivated:
  assumes "ringingAlarm s = None"
    and "ringingAlarm (checkAlarms out now s) = Some a"
  shows "(days a = [] \<and> out = DbOk \<longrightarrow>
            map_of (alarmStore (checkAlarms out now s)) (alarmId a) = Some (a\<lparr>isActive := False\<rparr>) \<and>
            (\<forall>x \<in> set (alarms (checkAlarms out now s)).
                alarmId x = alarmId a \<longrightarrow> x = a\<lparr>isActive := False\<rparr>) \<and>
            (\<forall>t. alarmStore (stopRinging t (checkAlarms out now s)) = alarmStore (checkAlarms out now s))) \<and>
         (days a \<noteq> [] \<longrightarrow>
            alarmStore (checkAlarms out now s) = alarmStore s \<and>
            alarms (checkAlarms out now s) = alarms s)"
proof -
  have sc: "scanAlarms now (ignoreForThisMinute s) (alarms s) = Some a"
    using assms ringing_checkAlarms by metis
  show ?thesis using assms(1) sc
    by (auto simp: checkAlarms_def Let_def saveAlarm_def map_of_store_put stopRinging_def
        split: option.splits)
qed

lemma ringing_once: "ringingAlarm (checkAlarms DbOk monday_0705 once_state) = Some once_alarm"
  by (simp add: checkAlarms_def once_state_def shouldRing_def currentTime_0705 once_alarm_def
      saveAlarm_def Let_def)

text \<open>
  A one-shot alarm for 07:05 rings and is stored inactive; a Monday alarm rings and the
  store is unchanged.
\<close>

theorem one_shot_deactivated_witness:
  "ringingAlarm once_state = None \<and>
   ringingAlarm (checkAlarms DbOk monday_0705 once_state) = Some once_alarm \<and>
   days once_alarm = [] \<and>
   alarmStore (checkAlarms DbOk monday_0705 once_state) =
     [(''1700000000002'', once_alarm\<lparr>isActive := False\<rparr>)] \<and>
   map_of (alarmStore (stopRinging 5000 (checkAlarms DbOk monday_0705 once_state)))
     (alarmId once_alarm) = Some (once_alarm\<lparr>isActive := False\<rparr>) \<and>
   ringingAlarm two_alarms = None \<and>
   ringingAlarm (checkAlarms DbOk monday_0705 two_alarms) = Some monday_alarm \<and>
   days monday_alarm \<noteq> [] \<and>
   alarmStore (checkAlarms DbOk monday_0705 two_alarms) = alarmStore two_alarms \<and>
   alarms (checkAlarms DbOk monday_0705 two_alarms) = alarms two_alarms"
proof -
  have h1: "ringingAlarm once_state = None" by (simp add: once_state_def)
  have d1: "days once_alarm = []" by (simp add: once_alarm_def)
  have st: "alarmStore (checkAlarms DbOk monday_0705 once_state) =
     [(''1700000000002'', once_alarm\<lparr>isActive := False\<rparr>)]"
    by (simp add: checkAlarms_def once_state_def shouldRing_def currentTime_0705 once_alarm_def
      saveAlarm_def Let_def store_put_def)
  have h2: "ringingAlarm two_alarms = None" by (simp add: two_alarms_def)
  have r2: "ringingAlarm (checkAlarms DbOk monday_0705 two_alarms) = Some monday_alarm"
    by (simp add: checkAlarms_def two_alarms_def shouldRing_def currentTime_0705
        monday_alarm_def getDay_0705)
  have d2: "days monday_alarm \<noteq> []" by (simp add: monday_alarm_def)
  show ?thesis
    using one_shot_deactivated [OF h1 ringing_once] one_shot_deactivated [OF h2 r2]
      h1 d1 h2 r2 d2 ringing_once st
    by simp
qed

section \<open>The suppression window\<close>





























section \<open>Alarm ids\<close>

lemma addAlarm_twice_alarms:
  "mset (alarms (addAlarm lc DbOk now b (addAlarm lc DbOk now a s))) =
     mset (alarms s) + {#a\<lparr>alarmId := String_nat now\<rparr>, b\<lparr>alarmId := String_nat now\<rparr>#}"
  by (simp add: addAlarm_def saveAlarm_def Let_def mset_array_sort)

lemma not_distinct_twice:
  assumes "mset xs = mset ys + {#a, b#}" and "f a = f b"
  shows "\<not> distinct (map f xs)"
proof
  assume d: "distinct (map f xs)"
  have "mset (map f xs) = mset (map f ys) + {#f a, f b#}"
    using assms(1) by (metis (no_types) mset_map image_mset_union image_mset_add_mset image_mset_empty)
  then have "count (mset (map f xs)) (f a) \<ge> 2" using assms(2) by simp
  moreover have "count (mset (map f xs)) (f a) \<le> 1"
    using d by (simp add: distinct_count_atmost_1)
  ultimately show False by simp
qed

text \<open>
  C10.  The id of a new alarm is the decimal numeral of \<open>Date.now()\<close>.  After two
  \<open>addAlarm\<close> calls at the same millisecond, both accepted by the store, the store holds
  one record under that id, the second alarm, while the in-memory list has gained both
  alarms, so that its ids are not distinct.
\<close>

theorem addAlarm_same_millisecond:
  "map_of (alarmStore (addAlarm lc DbOk now b (addAlarm lc DbOk now a s))) (String_nat now)
     = Some (b\<lparr>alarmId := String_nat now\<rparr>) \<and>
   length (filter (\<lambda>e. fst e = String_nat now)
     (alarmStore (addAlarm lc DbOk now b (addAlarm lc DbOk now a s)))) = 1 \<and>
   mset (alarms (addAlarm lc DbOk now b (addAlarm lc DbOk now a s))) =
     mset (alarms s) + {#a\<lparr>alarmId := String_nat now\<rparr>, b\<lparr>alarmId := String_nat now\<rparr>#} \<and>
   \<not> distinct (map alarmId (alarms (addAlarm lc DbOk now b (addAlarm lc DbOk now a s))))"
proof -
  have "\<not> distinct (map alarmId (alarms (addAlarm lc DbOk now b (addAlarm lc DbOk now a s))))"
    by (rule not_distinct_twice [OF addAlarm_twice_alarms]) simp
  then show ?thesis
    by (simp add: addAlarm_twice_alarms)
       (simp add: addAlarm_def saveAlarm_def Let_def store_put_def)
qed

text \<open>
  Two alarms added at millisecond 1700000000000 to an empty store.
\<close>

theorem addAlarm_same_millisecond_witness:
  "alarmStore (addAlarm codeUnitCompare DbOk 1700000000000 second_alarm
      (addAlarm codeUnitCompare DbOk 1700000000000 once_alarm (mounted codeUnitCompare DbOk [])))
     = [(''1700000000000'', second_alarm\<lparr>alarmId := ''1700000000000''\<rparr>)] \<and>
   alarms (addAlarm codeUnitCompare DbOk 1700000000000 second_alarm
      (addAlarm codeUnitCompare DbOk 1700000000000 once_alarm (mounted codeUnitCompare DbOk [])))
     = [once_alarm\<lparr>alarmId := ''1700000000000''\<rparr>, second_alarm\<lparr>alarmId := ''1700000000000''\<rparr>]"
proof -
  have i: "String_nat 1700000000000 = ''1700000000000''"
    by (simp add: String_nat.simps digit_char_def)
  have a: "alarmStore (addAlarm codeUnitCompare DbOk 1700000000000 second_alarm
      (addAlarm codeUnitCompare DbOk 1700000000000 once_alarm (mounted codeUnitCompare DbOk [])))
     = [(''1700000000000'', second_alarm\<lparr>alarmId := ''1700000000000''\<rparr>)]"
    by (simp add: i addAlarm_def saveAlarm_def store_put_def mounted_def getAllAlarms_def
        store_getAll_def array_sort_def Let_def)
  have b: "alarms (addAlarm codeUnitCompare DbOk 1700000000000 second_alarm
      (addAlarm codeUnitCompare DbOk 1700000000000 once_alarm (mounted codeUnitCompare DbOk [])))
     = [once_alarm\<lparr>alarmId := ''1700000000000''\<rparr>, second_alarm\<lparr>alarmId := ''1700000000000''\<rparr>]"
    by (simp add: i addAlarm_def saveAlarm_def store_put_def mounted_def getAllAlarms_def
        store_getAll_def array_sort_def Let_def codeUnitCompare_def once_alarm_def second_alarm_def)
  show ?thesis
    using addAlarm_same_millisecond [of codeUnitCompare 1700000000000 second_alarm once_alarm
        "mounted codeUnitCompare DbOk []"] a b
    by simp
qed

section \<open>The recording session controller\<close>

lemma status_cleanup: "status (cleanup s) = status s"
  by (simp add: cleanup_def Let_def ondataavailable_def split: option.splits)

lemma error_cleanup: "error (cleanup s) = error s"
  by (simp add: cleanup_def Let_def ondataavailable_def split: option.splits)

lemma ondataavailable_empty: "ondataavailable [] s = s"
  by (simp add: ondataavailable_def)

text \<open>
  C2.  When the stop handler runs with no audio chunk buffered, the only value the status
  takes is \<open>error\<close>, and the controller ends in \<open>error\<close> with the fixed no-chunks message.
  So when a session is stopped while the recorder is recording and no chunk is buffered,
  none before and none delivered by the final \<open>dataavailable\<close> event, the status goes
  from its value before the stop directly to \<open>error\<close>: it takes neither the value
  \<open>analyzing\<close> nor the value \<open>results\<close>.
\<close>

theorem no_chunks_error:
  "(audioChunksRef s = [] \<longrightarrow>
      fst (onstop env s) = [ErrorStatus] \<and>
      status (snd (onstop env s)) = ErrorStatus \<and>
      error (snd (onstop env s)) =
        [''[Final Check] No audio chunks were recorded. The stream might have been silent or stopped unexpectedly.'']) \<and>
   (mediaRecorderRef s = Some r \<and> state r = Recording \<and>
    audioChunksRef s = [] \<and> pendingData r = [] \<longrightarrow>
      fst (handleStopAndAnalyze env s) = [ErrorStatus] \<and>
      status (snd (handleStopAndAnalyze env s)) = ErrorStatus \<and>
      error (snd (handleStopAndAnalyze env s)) =
        [''[Final Check] No audio chunks were recorded. The stream might have been silent or stopped unexpectedly.''] \<and>
      Analyzing \<notin> set (fst (handleStopAndAnalyze env s)) \<and>
      Results \<notin> set (fst (handleStopAndAnalyze env s)))"
  by (simp add: handleStopAndAnalyze_def ondataavailable_empty onstop_def Let_def
      status_cleanup error_cleanup batched_def)

lemma silent_recorder:
  "mediaRecorderRef silent_session = Some \<lparr>state = Recording, pendingData = []\<rparr>"
  by (simp add: silent_session_def)

text \<open>
  A silent session in the \<open>tracking\<close> state is stopped: the status takes the value
  \<open>error\<close> and no other.
\<close>

theorem no_chunks_error_witness:
  "mediaRecorderRef silent_session = Some \<lparr>state = Recording, pendingData = []\<rparr> \<and>
   state \<lparr>state = Recording, pendingData = []\<rparr> = Recording \<and>
   audioChunksRef silent_session = [] \<and>
   pendingData \<lparr>state = Recording, pendingData = []\<rparr> = [] \<and>
   status silent_session = Tracking \<and>
   fst (onstop gateway_down silent_session) = [ErrorStatus] \<and>
   status (snd (handleStopAndAnalyze gateway_down silent_session)) = ErrorStatus \<and>
   fst (handleStopAndAnalyze gateway_down silent_session) = [ErrorStatus]"
proof -
  have c: "audioChunksRef silent_session = []" by (simp add: silent_session_def)
  have t: "status silent_session = Tracking" by (simp add: silent_session_def)
  show ?thesis
    using no_chunks_error [of silent_session gateway_down "\<lparr>state = Recording, pendingData = []\<rparr>"]
      silent_recorder c t
    by simp
qed

lemma postToApi_ErrorResponse: "\<exists>e. postToApi (ErrorResponse b) = Inl e"
proof (cases "getProp ''error''
    (case b of None \<Rightarrow> JObj [(''error'', JStr ''An unknown API error occurred.'')] | Some j \<Rightarrow> j)")
  case (Inl e)
  then show ?thesis by (simp add: postToApi_def Let_def)
next
  case (Inr v)
  then show ?thesis by (simp add: postToApi_def Let_def)
qed

lemma analyzeSleepAudio_ErrorResponse: "\<exists>e. analyzeSleepAudio (ErrorResponse b) = Inl e"
  using postToApi_ErrorResponse [of b] by (simp add: analyzeSleepAudio_def)

lemma getHealthSuggestions_ErrorResponse: "\<exists>e. getHealthSuggestions (ErrorResponse b) = Inl e"
proof -
  obtain e where "(postToApi (ErrorResponse b) :: thrown + suggestions_body) = Inl e"
    using postToApi_ErrorResponse [of b] by blast
  then show ?thesis by (simp add: getHealthSuggestions_def)
qed

lemma caught_error:
  "fst (caught err s) = [ErrorStatus] \<and> status (snd (caught err s)) = ErrorStatus \<and>
   (\<exists>m. error (snd (caught err s)) = [m] \<and> m \<noteq> [])"
  by (cases err) (simp_all add: caught_def status_cleanup error_cleanup)

text \<open>
  C7.  While the stopped session is analysed (\<open>onloadend\<close> runs in the \<open>analyzing\<close>
  state), if the audio analysis request or the suggestions request is answered with a
  response that is not \<open>ok\<close>, the only status set is \<open>error\<close>, the controller ends in
  \<open>error\<close>, and its error list holds exactly one message, which is not empty.
\<close>

theorem gateway_failure_error:
  assumes "analyzeResponse env = ErrorResponse b1 \<or> suggestionsResponse env = ErrorResponse b2"
  shows "status (snd (onloadend env s)) = ErrorStatus \<and>
         (\<exists>m. error (snd (onloadend env s)) = [m] \<and> m \<noteq> []) \<and>
         fst (onloadend env s) = [ErrorStatus]"
proof -
  have "\<exists>err s'. onloadend env s = caught err s'"
  proof (cases "analyzeSleepAudio (analyzeResponse env)")
    case (Inl err)
    then show ?thesis by (auto simp: onloadend_def)
  next
    case (Inr analysisResult)
    then have "analyzeResponse env \<noteq> ErrorResponse b1"
      using analyzeSleepAudio_ErrorResponse [of b1] by auto
    then have "suggestionsResponse env = ErrorResponse b2" using assms by simp
    then obtain e where "getHealthSuggestions (suggestionsResponse env) = Inl e"
      using getHealthSuggestions_ErrorResponse [of b2] by auto
    then show ?thesis using Inr
      by (auto simp: onloadend_def Let_def split: sum.splits)
  qed
  then show ?thesis using caught_error by metis
qed

lemma analyze_gateway_down:
  "analyzeSleepAudio (analyzeResponse gateway_down) = Inl (ErrorObj ''quota exceeded'')"
  by (simp add: gateway_down_def analyzeSleepAudio_def postToApi_def getProp_def)

text \<open>
  A failed analysis request passes the gateway's message on; a failed suggestions request
  whose error member converts to the empty string yields the fixed fallback message.
\<close>

theorem gateway_failure_error_witness:
  "analyzeResponse gateway_down = ErrorResponse (Some (JObj [(''error'', JStr ''quota exceeded'')])) \<and>
   status (snd (onloadend gateway_down (recorded_session\<lparr>status := Analyzing\<rparr>))) = ErrorStatus \<and>
   error (snd (onloadend gateway_down (recorded_session\<lparr>status := Analyzing\<rparr>)))
     = [''quota exceeded''] \<and>
   suggestionsResponse suggestions_down = ErrorResponse (Some (JObj [(''error'', JArr [])])) \<and>
   status (snd (onloadend suggestions_down (recorded_session\<lparr>status := Analyzing\<rparr>)))
     = ErrorStatus \<and>
   error (snd (onloadend suggestions_down (recorded_session\<lparr>status := Analyzing\<rparr>)))
     = [''Failed to analyze sleep audio. Please try again.'']"
proof -
  have a: "analyzeResponse gateway_down
             = ErrorResponse (Some (JObj [(''error'', JStr ''quota exceeded'')]))"
    by (simp add: gateway_down_def)
  have b: "suggestionsResponse suggestions_down = ErrorResponse (Some (JObj [(''error'', JArr [])]))"
    by (simp add: suggestions_down_def)
  have e1: "error (snd (onloadend gateway_down (recorded_session\<lparr>status := Analyzing\<rparr>)))
     = [''quota exceeded'']"
    by (simp add: onloadend_def analyze_gateway_down caught_def error_cleanup)
  have g: "getHealthSuggestions (suggestionsResponse suggestions_down) = Inl (ErrorObj [])"
    by (simp add: suggestions_down_def getHealthSuggestions_def postToApi_def getProp_def)
  have h: "analyzeSleepAudio (analyzeResponse suggestions_down) = Inr good_night"
    by (simp add: suggestions_down_def analyzeSleepAudio_def postToApi_def)
  have o: "addOutcome suggestions_down = DbOk"
    by (simp add: suggestions_down_def gateway_down_def)
  have st: "historyStore (recorded_session\<lparr>status := Analyzing\<rparr>) = []"
    by (simp add: recorded_session_def silent_session_def)
  have e2: "error (snd (onloadend suggestions_down (recorded_session\<lparr>status := Analyzing\<rparr>)))
     = [''Failed to analyze sleep audio. Please try again.'']"
    by (simp add: onloadend_def g h o st caught_def error_cleanup Let_def addSleepSession_def
        store_add_def)
  show ?thesis
    using gateway_failure_error [of gateway_down _ _ "recorded_session\<lparr>status := Analyzing\<rparr>",
            OF disjI1 [OF a]]
      gateway_failure_error [of suggestions_down _ _ "recorded_session\<lparr>status := Analyzing\<rparr>",
            OF disjI2 [OF b]]
      a b e1 e2
    by simp
qed

lemma cleanup_fields:
  "status (cleanup s) = status s"
  "analysisData (cleanup s) = analysisData s"
  "healthSuggestions (cleanup s) = healthSuggestions s"
  "error (cleanup s) = error s"
  "durationSec (cleanup s) = durationSec s"
  "sessionStartTime (cleanup s) = sessionStartTime s"
  "audioURL (cleanup s) = audioURL s"
  "objectURLs (cleanup s) = objectURLs s"
  "historyStore (cleanup s) = historyStore s"
  "mediaRecorderRef (cleanup s) = None"
  "audioStreamRef (cleanup s) = None"
  "srcObject (cleanup s) = None"
  by (simp_all add: cleanup_def Let_def ondataavailable_def split: option.splits)

lemma cleanup_timer:
  "timerIntervalRef (cleanup s) = (if timerIntervalRef s = Some 0 then Some 0 else None)"
  "activeIntervals (cleanup s) =
     (case timerIntervalRef s of
        None \<Rightarrow> activeIntervals s
      | Some h \<Rightarrow> if h \<noteq> 0 then activeIntervals s - {h} else activeIntervals s)"
  by (simp_all add: cleanup_def Let_def ondataavailable_def split: option.splits)

lemma cleanup_tracks:
  "liveTracks (cleanup s) =
     (case audioStreamRef s of
        None \<Rightarrow> liveTracks s
      | Some stream \<Rightarrow> liveTracks s - set (tracks stream))"
  by (simp add: cleanup_def Let_def ondataavailable_def split: option.splits)

lemma cleanup_released:
  assumes "mediaRecorderRef s = None" and "audioStreamRef s = None"
    and "srcObject s = None" and "timerIntervalRef s = None \<or> timerIntervalRef s = Some 0"
  shows "cleanup s = s"
  using assms by (auto simp: cleanup_def Let_def)

lemma resetState_fields:
  "status (resetState s) = Idle"
  "analysisData (resetState s) = None"
  "healthSuggestions (resetState s) = []"
  "error (resetState s) = []"
  "durationSec (resetState s) = 0"
  "sessionStartTime (resetState s) = None"
  "audioURL (resetState s) = None"
  "mediaRecorderRef (resetState s) = None"
  "audioStreamRef (resetState s) = None"
  "srcObject (resetState s) = None"
  by (simp_all add: resetState_def Let_def cleanup_fields)

lemma resetState_timer:
  "timerIntervalRef (resetState s) = (if timerIntervalRef s = Some 0 then Some 0 else None)"
  by (simp add: resetState_def Let_def cleanup_timer split: option.splits)

lemma resetState_idempotent: "resetState (resetState s) = resetState s"
proof -
  have c: "cleanup (resetState s) = resetState s"
    by (rule cleanup_released) (simp_all add: resetState_fields resetState_timer)
  have "resetState (resetState s) =
          (cleanup (resetState s))\<lparr>status := Idle, analysisData := None,
             healthSuggestions := [], error := [], durationSec := 0, audioURL := None,
             sessionStartTime := None\<rparr>"
    by (simp add: resetState_def [of "resetState s"] resetState_fields Let_def)
  also have "\<dots> = resetState s"
    unfolding c by (rule tracker_state.equality) (simp_all add: resetState_fields)
  finally show ?thesis .
qed

text \<open>
  C8.  From every state whose interval handle is not \<open>0\<close> (handles of \<open>setInterval\<close> are
  positive), \<open>resetState\<close> leaves no stream reference and none of the stream's tracks
  live, no media recorder, no interval handle and the former handle no longer running,
  and the status \<open>idle\<close>; resetting the resulting state again returns the same state.
  Where the only live tracks are those of the referenced stream and the only running
  interval is the referenced one, no track is live and no interval runs afterwards.
\<close>

theorem resetState_releases:
  assumes "timerIntervalRef s \<noteq> Some 0"
  shows "audioStreamRef (resetState s) = None \<and>
         (\<forall>stream. audioStreamRef s = Some stream \<longrightarrow>
            set (tracks stream) \<inter> liveTracks (resetState s) = {}) \<and>
         mediaRecorderRef (resetState s) = None \<and>
         timerIntervalRef (resetState s) = None \<and>
         (\<forall>h. timerIntervalRef s = Some h \<longrightarrow> h \<notin> activeIntervals (resetState s)) \<and>
         status (resetState s) = Idle \<and>
         resetState (resetState s) = resetState s \<and>
         (liveTracks s \<subseteq> (case audioStreamRef s of None \<Rightarrow> {} | Some stream \<Rightarrow> set (tracks stream))
            \<longrightarrow> liveTracks (resetState s) = {}) \<and>
         (activeIntervals s \<subseteq> (case timerIntervalRef s of None \<Rightarrow> {} | Some h \<Rightarrow> {h})
            \<longrightarrow> activeIntervals (resetState s) = {})"
proof -
  have l: "liveTracks s \<subseteq> (case audioStreamRef s of None \<Rightarrow> {} | Some stream \<Rightarrow> set (tracks stream))
            \<longrightarrow> liveTracks (resetState s) = {}"
    by (auto simp: resetState_def Let_def cleanup_tracks split: option.splits)
  have i: "activeIntervals s \<subseteq> (case timerIntervalRef s of None \<Rightarrow> {} | Some h \<Rightarrow> {h})
            \<longrightarrow> activeIntervals (resetState s) = {}"
    using assms by (auto simp: resetState_def Let_def cleanup_timer split: option.splits)
  have t: "\<forall>stream. audioStreamRef s = Some stream \<longrightarrow>
            set (tracks stream) \<inter> liveTracks (resetState s) = {}"
    by (auto simp: resetState_def Let_def cleanup_tracks split: option.splits)
  have h: "\<forall>h. timerIntervalRef s = Some h \<longrightarrow> h \<notin> activeIntervals (resetState s)"
    using assms by (auto simp: resetState_def Let_def cleanup_timer split: option.splits)
  show ?thesis
    using assms t h l i
    by (simp add: resetState_fields resetState_timer resetState_idempotent)
qed

text \<open>
  Resetting a tracking session gives the initial state, with no live track and no running
  timer; resetting the initial state changes nothing.
\<close>

theorem resetState_releases_witness:
  "timerIntervalRef silent_session \<noteq> Some 0 \<and>
   audioStreamRef silent_session = Some \<lparr>tracks = [1]\<rparr> \<and>
   liveTracks silent_session = {1} \<and>
   resetState silent_session = initial_tracker \<and>
   resetState initial_tracker = initial_tracker"
proof -
  have a: "timerIntervalRef silent_session \<noteq> Some 0" by (simp add: silent_session_def)
  have b: "resetState silent_session = initial_tracker"
    by (simp add: resetState_def cleanup_def Let_def ondataavailable_def silent_session_def
        initial_tracker_def)
  show ?thesis
    using resetState_releases [OF a] a b by (simp add: silent_session_def)
qed

section \<open>The gateway\<close>

text \<open>
  C5, as amended.  A request whose method is not \<open>POST\<close> is answered with status 405 and
  the plain text \<open>Method Not Allowed\<close>.  A \<open>POST\<close> request is answered either with status
  200 and the stringified result of the operation, or with status 500 and the stringified
  object \<open>{ error: m }\<close> for a non-empty string \<open>m\<close>; the latter covers every failure of a
  \<open>POST\<close> request, an unknown operation type included.
\<close>

theorem handler_response_shape:
  "(httpMethod event \<noteq> ''POST'' \<longrightarrow>
      handler env event =
        \<lparr>statusCode = 405, headers = [], responseBody = PlainText ''Method Not Allowed''\<rparr>) \<and>
   (httpMethod event = ''POST'' \<longrightarrow>
      (\<exists>result. dispatch env event = Inr result \<and>
         statusCode (handler env event) = 200 \<and>
         responseBody (handler env event) = Stringify result) \<or>
      (\<exists>m. m \<noteq> [] \<and> statusCode (handler env event) = 500 \<and>
         responseBody (handler env event) = Stringify (JObj [(''error'', JStr m)])))"
  by (cases "dispatch env event")
     (auto simp: handler_def split: option.splits)

lemma dispatch_ping:
  "dispatch example_env ping_request = Inl (ErrorObj ''Unknown API call type: ping'')"
  by (simp add: dispatch_def example_env_def ping_request_def getProp_def)

lemma dispatch_suggestions:
  "dispatch example_env suggestions_request
     = Inr (JObj [(''suggestions'', JStr ''<p>Keep it up</p>'')])"
  by (simp add: dispatch_def example_env_def suggestions_request_def getProp_def
      handleGetHealthSuggestions_def textObject_def)

text \<open>
  The claim as stated fails: the answer to a \<open>GET\<close> request has status 405 and a body that
  is not an object with an \<open>error\<close> member.
\<close>

theorem handler_response_shape_counterexample:
  "statusCode (handler example_env get_request) = 405 \<and>
   statusCode (handler example_env get_request) \<noteq> 200 \<and>
   responseBody (handler example_env get_request) = PlainText ''Method Not Allowed'' \<and>
   \<not> isErrorObject (responseBody (handler example_env get_request))"
  by (simp add: handler_def get_request_def isErrorObject_def)

text \<open>
  A \<open>GET\<close> request, a \<open>POST\<close> request of unknown type and a successful request.
\<close>

theorem handler_response_shape_witness:
  "httpMethod get_request \<noteq> ''POST'' \<and>
   handler example_env get_request =
     \<lparr>statusCode = 405, headers = [], responseBody = PlainText ''Method Not Allowed''\<rparr> \<and>
   httpMethod ping_request = ''POST'' \<and>
   handler example_env ping_request =
     \<lparr>statusCode = 500, headers = [],
      responseBody = Stringify (JObj [(''error'', JStr ''Unknown API call type: ping'')])\<rparr> \<and>
   isErrorObject (responseBody (handler example_env ping_request)) \<and>
   httpMethod suggestions_request = ''POST'' \<and>
   handler example_env suggestions_request =
     \<lparr>statusCode = 200, headers = [(''Content-Type'', ''application/json'')],
      responseBody = Stringify (JObj [(''suggestions'', JStr ''<p>Keep it up</p>'')])\<rparr>"
proof -
  have g: "httpMethod get_request \<noteq> ''POST''" by (simp add: get_request_def)
  have p: "httpMethod ping_request = ''POST''" by (simp add: ping_request_def)
  have q: "httpMethod suggestions_request = ''POST''" by (simp add: suggestions_request_def)
  have hp: "handler example_env ping_request =
     \<lparr>statusCode = 500, headers = [],
      responseBody = Stringify (JObj [(''error'', JStr ''Unknown API call type: ping'')])\<rparr>"
    by (simp add: handler_def p dispatch_ping)
  have hq: "handler example_env suggestions_request =
     \<lparr>statusCode = 200, headers = [(''Content-Type'', ''application/json'')],
      responseBody = Stringify (JObj [(''suggestions'', JStr ''<p>Keep it up</p>'')])\<rparr>"
    by (simp add: handler_def q dispatch_suggestions)
  show ?thesis
    using handler_response_shape [of get_request example_env]
      handler_response_shape [of ping_request example_env] g p q hp hq
    by (simp add: isErrorObject_def)
qed

section \<open>The dashboard aggregates\<close>













end
